theory Spec2Isabelle
  imports Complex_Main "HOL-Library.Sublist"
begin

section \<open>PaperBanana Lite: the refinement pipeline of paperbanana_lite.py\<close>

text \<open>
  The pipeline of \<^verbatim>\<open>scripts/paperbanana_lite.py\<close> is embedded function by function.
  Python raises become values of \<open>error + 'a\<close>; the file system and the calls made to
  the model gateway are an explicit \<open>world\<close> that every effectful function takes and
  returns; what the program cannot decide by itself (the replies of the model, the
  outcome of the child process, \<^verbatim>\<open>json.loads\<close>) is a field of an environment \<open>env\<close>.
\<close>

subsection \<open>Python values and errors\<close>

datatype error =
  AttributeError | TypeError | ValueError | RetryError
  | FileNotFoundError | UnidentifiedImageError | LoadError
  | UnicodeDecodeError | OSError

text \<open>
  What \<^verbatim>\<open>json.loads\<close> returns. A float is kept as a real number: the program only
  tests floats for zero, and the special floats behave there like any non-zero one.
  An object is its items in insertion order; its keys are distinct.
\<close>

datatype json =
  JNull | JBool bool | JInt int | JFloat real | JStr string
  | JArr "json list" | JObj "(string \<times> json) list"

text \<open>Truth value testing, as \<^verbatim>\<open>if x\<close>, \<^verbatim>\<open>x or y\<close> and \<^verbatim>\<open>x and y\<close> do it.\<close>

fun truthy :: "json \<Rightarrow> bool" where
  "truthy JNull = False"
| "truthy (JBool b) = b"
| "truthy (JInt n) = (n \<noteq> 0)"
| "truthy (JFloat x) = (x \<noteq> 0)"
| "truthy (JStr s) = (s \<noteq> [])"
| "truthy (JArr xs) = (xs \<noteq> [])"
| "truthy (JObj kvs) = (kvs \<noteq> [])"

definition py_or :: "json \<Rightarrow> json \<Rightarrow> json" where
  "py_or a b = (if truthy a then a else b)"

text \<open>\<^verbatim>\<open>d.get(key, default)\<close> on the items of a dict.\<close>

definition dict_get :: "(string \<times> json) list \<Rightarrow> string \<Rightarrow> json \<Rightarrow> json" where
  "dict_get kvs k d = (case map_of kvs k of None \<Rightarrow> d | Some v \<Rightarrow> v)"

text \<open>\<^verbatim>\<open>len(x)\<close>: only strings, lists and dicts have a length.\<close>

fun py_len :: "json \<Rightarrow> error + nat" where
  "py_len (JStr s) = Inr (length s)"
| "py_len (JArr xs) = Inr (length xs)"
| "py_len (JObj kvs) = Inr (length kvs)"
| "py_len _ = Inl TypeError"

text \<open>
  \<^verbatim>\<open>for e in x\<close>: a list gives its elements, a string its characters (each a string
  of length one), a dict its keys; anything else is not iterable.
\<close>

fun py_iter :: "json \<Rightarrow> error + json list" where
  "py_iter (JArr xs) = Inr xs"
| "py_iter (JStr s) = Inr (map (\<lambda>c. JStr [c]) s)"
| "py_iter (JObj kvs) = Inr (map (\<lambda>kv. JStr (fst kv)) kvs)"
| "py_iter _ = Inl TypeError"

text \<open>\<^verbatim>\<open>xs[:n]\<close>: a negative bound counts from the end.\<close>

definition py_take :: "int \<Rightarrow> 'a list \<Rightarrow> 'a list" where
  "py_take n xs = (if 0 \<le> n then take (nat n) xs else take (length xs - nat (- n)) xs)"

subsection \<open>Strings\<close>

text \<open>
  A Python string is modelled as a \<open>string\<close>, one \<open>char\<close> per code point (code points
  below 256). \<open>find_sub sub s\<close> is \<^verbatim>\<open>s.find(sub)\<close> with \<open>None\<close> for \<^verbatim>\<open>-1\<close>,
  \<open>contains sub s\<close> is \<^verbatim>\<open>sub in s\<close>, \<open>py_index s sub start\<close> is
  \<^verbatim>\<open>s.index(sub, start)\<close> with \<open>None\<close> where Python raises ValueError, and
  \<open>py_slice s start stop\<close> is \<^verbatim>\<open>s[start:stop]\<close> for bounds that are not negative.
\<close>

fun find_sub :: "'a list \<Rightarrow> 'a list \<Rightarrow> nat option" where
  "find_sub sub [] = (if sub = [] then Some 0 else None)"
| "find_sub sub (x # xs) =
     (if prefix sub (x # xs) then Some 0 else map_option Suc (find_sub sub xs))"

fun contains :: "'a list \<Rightarrow> 'a list \<Rightarrow> bool" where
  "contains sub [] = (sub = [])"
| "contains sub (x # xs) = (prefix sub (x # xs) \<or> contains sub xs)"

definition py_index :: "'a list \<Rightarrow> 'a list \<Rightarrow> nat \<Rightarrow> nat option" where
  "py_index s sub start =
     (if length s < start then None
      else map_option (\<lambda>k. start + k) (find_sub sub (drop start s)))"

definition py_slice :: "'a list \<Rightarrow> nat \<Rightarrow> nat \<Rightarrow> 'a list" where
  "py_slice s start stop = take (stop - start) (drop start s)"

text \<open>
  The characters \<^verbatim>\<open>str.strip()\<close> removes: those for which \<^verbatim>\<open>str.isspace\<close> holds
  (tab to carriage return, the four separators 28 to 31, space, NEL and the
  no-break space).
\<close>

definition is_space :: "char \<Rightarrow> bool" where
  "is_space c =
     (let n = (of_char c :: nat)
      in (9 \<le> n \<and> n \<le> 13) \<or> (28 \<le> n \<and> n \<le> 32) \<or> n = 133 \<or> n = 160)"

definition py_strip :: "string \<Rightarrow> string" where
  "py_strip s = rev (dropWhile is_space (rev (dropWhile is_space s)))"

text \<open>\<^verbatim>\<open>sep.join(xs)\<close> and \<^verbatim>\<open>s.split(c)\<close> for a single character \<open>c\<close>.\<close>

fun join_strs :: "string \<Rightarrow> string list \<Rightarrow> string" where
  "join_strs sep [] = []"
| "join_strs sep [x] = x"
| "join_strs sep (x # y # ys) = x @ sep @ join_strs sep (y # ys)"

fun split_on :: "'a \<Rightarrow> 'a list \<Rightarrow> 'a list list" where
  "split_on c [] = [[]]"
| "split_on c (x # xs) =
     (if x = c then [] # split_on c xs
      else (case split_on c xs of
              [] \<Rightarrow> [[x]]
            | p # ps \<Rightarrow> (x # p) # ps))"

subsection \<open>Paths\<close>

text \<open>
  A \<^verbatim>\<open>pathlib.Path\<close> on a POSIX system is its root (empty, one slash, or two
  slashes when the text starts with exactly two) and its parts: the components
  between slashes, without the empty ones and the dots. \<open>parse_path s\<close> is
  \<^verbatim>\<open>Path(s)\<close>, \<open>path_div p s\<close> is \<^verbatim>\<open>p / s\<close> (an absolute \<open>s\<close> replaces \<open>p\<close>),
  \<open>path_str p\<close> is \<^verbatim>\<open>str(p)\<close>, \<open>path_parent p\<close> is \<^verbatim>\<open>p.parent\<close> and \<open>parent_dir s\<close>
  is \<^verbatim>\<open>str(Path(s).parent)\<close>.
\<close>

type_synonym pure_path = "string \<times> string list"

definition parse_path :: "string \<Rightarrow> pure_path" where
  "parse_path s =
     (let n = length (takeWhile (\<lambda>c. c = CHR ''/'') s)
      in (if n = 0 then [] else if n = 2 then ''//'' else ''/'',
          filter (\<lambda>x. x \<noteq> [] \<and> x \<noteq> ''.'')
            (split_on (CHR ''/'') (dropWhile (\<lambda>c. c = CHR ''/'') s))))"

definition path_div :: "pure_path \<Rightarrow> string \<Rightarrow> pure_path" where
  "path_div p s =
     (let q = parse_path s
      in if fst q \<noteq> [] then q else (fst p, snd p @ snd q))"

definition path_str :: "pure_path \<Rightarrow> string" where
  "path_str p =
     (if fst p = [] \<and> snd p = [] then ''.'' else fst p @ join_strs ''/'' (snd p))"

definition path_parent :: "pure_path \<Rightarrow> pure_path" where
  "path_parent p = (fst p, butlast (snd p))"

definition parent_dir :: "string \<Rightarrow> string" where
  "parent_dir s = path_str (path_parent (parse_path s))"

subsection \<open>Code extraction\<close>

text \<open>The fence marker, three backquotes, and the marker that opens a Python block.\<close>

definition fence :: string where
  "fence = [CHR 0x60, CHR 0x60, CHR 0x60]"

definition py_fence :: string where
  "py_fence = fence @ ''python''"

text \<open>
  \<^verbatim>\<open>_extract_code(response)\<close>. The two calls of \<^verbatim>\<open>response.index\<close> raise ValueError
  when the marker is not found; nothing in the function or in its caller catches it.
\<close>

definition extract_code :: "string \<Rightarrow> error + string" where
  "extract_code response =
     (if contains py_fence response then
        (case py_index response py_fence 0 of
           None \<Rightarrow> Inl ValueError
         | Some k \<Rightarrow>
             (let start = k + length py_fence
              in case py_index response fence start of
                   None \<Rightarrow> Inl ValueError
                 | Some stop \<Rightarrow> Inr (py_strip (py_slice response start stop))))
      else if contains fence response then
        (case py_index response fence 0 of
           None \<Rightarrow> Inl ValueError
         | Some k \<Rightarrow>
             (let start = k + 3
              in case py_index response fence start of
                   None \<Rightarrow> Inl ValueError
                 | Some stop \<Rightarrow> Inr (py_strip (py_slice response start stop))))
      else Inr (py_strip response))"

subsection \<open>The world and the environment\<close>

text \<open>
  Images are opaque but for the blank placeholder: \<open>Solid w h rgb\<close> is the image
  \<^verbatim>\<open>Image.new("RGB", (w, h), color=rgb)\<close>, \<open>Picture k\<close> any other image.
\<close>

datatype image = Solid nat nat "nat \<times> nat \<times> nat" | Picture nat

datatype file_content = ImageFile image | JsonFile json | OtherFile nat

text \<open>A reference example, the dict that \<^verbatim>\<open>load_references\<close> builds; its id is a string.\<close>

record example =
  ex_id :: string
  ex_source_context :: string
  ex_caption :: string
  ex_image_path :: string
  ex_category :: "string option"

text \<open>
  A prompt is a template filled with values. The wording of the templates plays no
  part in the control flow, so a prompt is represented by the template's name and the
  values formatted into it (the flag says whether the mode is \<^verbatim>\<open>"diagram"\<close>, which
  selects between the diagram and the plot template).
\<close>

datatype prompt =
  RetrieverPrompt bool string string "example list" int
  | PlannerPrompt bool string string "example list"
  | StylistPrompt bool string string string
  | DiagramVisualizerPrompt json
  | PlotVisualizerPrompt json
  | CriticPrompt bool string string json

record vlm_request =
  rq_prompt :: prompt
  rq_images :: "image list"
  rq_json_mode :: bool

text \<open>
  What \<^verbatim>\<open>subprocess.run\<close> does with the generated program: the child completes
  with an exit code, or the timeout expires, in both cases leaving files; or the
  call raises another exception (UnicodeDecodeError when the child's output is no
  text, OSError when the temporary file cannot be written or the interpreter
  cannot be started).
\<close>

datatype run_result =
  Completed int "string \<rightharpoonup> file_content"
  | TimeoutExpired "string \<rightharpoonup> file_content"
  | RunRaised error

text \<open>
  The world: the files by path, and the requests sent so far to the text model
  (\<^verbatim>\<open>call_vlm\<close>) and to the image model (\<^verbatim>\<open>generate_image\<close>).
\<close>

record world =
  files :: "string \<rightharpoonup> file_content"
  vlm_calls :: "vlm_request list"
  image_calls :: "prompt list"

text \<open>
  The environment: \<open>vlm k rq\<close> is what the gateway answers to request \<open>rq\<close> when \<open>k\<close>
  requests went before (the text of the reply, or the error left when the retries
  are used up); \<open>image_model\<close> likewise for \<^verbatim>\<open>generate_image\<close>; \<open>json_loads\<close> is
  \<^verbatim>\<open>json.loads\<close> with \<open>None\<close> for JSONDecodeError; \<open>json_dumps\<close> is
  \<^verbatim>\<open>json.dumps(x, indent=2)\<close>; \<open>run_python code fs\<close> is the outcome of running the
  program \<open>code\<close> in a child process for at most 60 seconds on the files \<open>fs\<close>: its
  exit code or the timeout, and the files it leaves, or the exception raised;
  \<open>strip_output_path\<close> is the \<^verbatim>\<open>re.sub\<close> that deletes the lines assigning
  OUTPUT_PATH; \<open>load_candidates dir\<close> is the candidate pool read from the reference
  directory (or from the default one); \<open>run_id\<close> is the name made of the clock and
  a random suffix; \<open>write_error path c fs\<close> is the exception, if any, raised when
  the content \<open>c\<close> is written at \<open>path\<close> (for an image, ValueError when the
  extension of the path names no image format; OSError when the file cannot be
  written); \<open>mkdir_error dir fs\<close> is the exception, if any, raised by
  \<^verbatim>\<open>mkdir(parents=True, exist_ok=True)\<close> of the directory \<open>dir\<close>.
\<close>

record env =
  vlm :: "nat \<Rightarrow> vlm_request \<Rightarrow> error + string"
  image_model :: "nat \<Rightarrow> prompt \<Rightarrow> error + image"
  json_loads :: "string \<Rightarrow> json option"
  json_dumps :: "json \<Rightarrow> string"
  run_python :: "string \<Rightarrow> (string \<rightharpoonup> file_content) \<Rightarrow> run_result"
  strip_output_path :: "string \<Rightarrow> string"
  load_candidates :: "string option \<Rightarrow> (string \<rightharpoonup> file_content) \<Rightarrow> error + example list"
  run_id :: string
  write_error :: "string \<Rightarrow> file_content \<Rightarrow> (string \<rightharpoonup> file_content) \<Rightarrow> error option"
  mkdir_error :: "string \<Rightarrow> (string \<rightharpoonup> file_content) \<Rightarrow> error option"

text \<open>Writing a file and making a directory; directories hold no content.\<close>

definition write_file :: "env \<Rightarrow> string \<Rightarrow> file_content \<Rightarrow> world \<Rightarrow> error + world" where
  "write_file E path c w =
     (case write_error E path c (files w) of
        Some e \<Rightarrow> Inl e
      | None \<Rightarrow> Inr (w\<lparr>files := (files w)(path \<mapsto> c)\<rparr>))"

definition make_dirs :: "env \<Rightarrow> string \<Rightarrow> world \<Rightarrow> error + world" where
  "make_dirs E dir w =
     (case mkdir_error E dir (files w) of
        Some e \<Rightarrow> Inl e
      | None \<Rightarrow> Inr w)"

text \<open>
  \<^verbatim>\<open>call_vlm\<close>: the request is sent (and recorded), the reply is the environment's.
  The result is the text of the reply; a reply that carries no text is not modelled.
\<close>

definition call_vlm ::
  "env \<Rightarrow> prompt \<Rightarrow> image list \<Rightarrow> bool \<Rightarrow> world \<Rightarrow> error + string \<times> world" where
  "call_vlm E p imgs json_mode w =
     (let rq = \<lparr>rq_prompt = p, rq_images = imgs, rq_json_mode = json_mode\<rparr>
      in case vlm E (length (vlm_calls w)) rq of
           Inl e \<Rightarrow> Inl e
         | Inr reply \<Rightarrow> Inr (reply, w\<lparr>vlm_calls := vlm_calls w @ [rq]\<rparr>))"

text \<open>
  \<^verbatim>\<open>generate_image\<close>: the aspect ratio and the size class are functions of the
  prompt's fixed dimensions and are left to the image model.
\<close>

definition generate_image :: "env \<Rightarrow> prompt \<Rightarrow> world \<Rightarrow> error + image \<times> world" where
  "generate_image E p w =
     (case image_model E (length (image_calls w)) p of
        Inl e \<Rightarrow> Inl e
      | Inr img \<Rightarrow> Inr (img, w\<lparr>image_calls := image_calls w @ [p]\<rparr>))"

subsection \<open>The retriever\<close>

text \<open>\<^verbatim>\<open>{c["id"]: c for c in candidates}\<close>: a later candidate replaces an earlier one.\<close>

definition id_to_example :: "example list \<Rightarrow> (string \<rightharpoonup> example)" where
  "id_to_example candidates = fold (\<lambda>c m. m(ex_id c \<mapsto> c)) candidates Map.empty"

text \<open>
  The loop \<^verbatim>\<open>for eid in selected_ids: if eid in id_to_example: selected.append(...)\<close>.
  The membership test hashes \<open>eid\<close>: a list or a dict is unhashable (TypeError), a
  string is looked up, and any other value is hashable and equal to no string key.
\<close>

fun select_loop ::
  "(string \<rightharpoonup> example) \<Rightarrow> json list \<Rightarrow> example list \<Rightarrow> error + example list" where
  "select_loop m [] selected = Inr selected"
| "select_loop m (JStr s # eids) selected =
     (case m s of
        Some c \<Rightarrow> select_loop m eids (selected @ [c])
      | None \<Rightarrow> select_loop m eids selected)"
| "select_loop m (JArr xs # eids) selected = Inl TypeError"
| "select_loop m (JObj kvs # eids) selected = Inl TypeError"
| "select_loop m (eid # eids) selected = select_loop m eids selected"

text \<open>
  The ids named by the reply: \<^verbatim>\<open>data.get("selected_ids") or data.get("top_10_papers")
  or data.get("top_10_plots") or []\<close>; \<^verbatim>\<open>data.get\<close> exists only on a dict.
\<close>

fun selected_ids_of :: "json \<Rightarrow> error + json" where
  "selected_ids_of (JObj kvs) =
     Inr (py_or (dict_get kvs ''selected_ids'' JNull)
           (py_or (dict_get kvs ''top_10_papers'' JNull)
             (py_or (dict_get kvs ''top_10_plots'' JNull) (JArr []))))"
| "selected_ids_of _ = Inl AttributeError"

definition retrieve ::
  "env \<Rightarrow> string \<Rightarrow> string \<Rightarrow> example list \<Rightarrow> int \<Rightarrow> string \<Rightarrow> world
     \<Rightarrow> error + example list \<times> world" where
  "retrieve E source_context caption candidates num_examples mode w =
     (if candidates = [] then Inr ([], w)
      else if int (length candidates) \<le> num_examples then Inr (candidates, w)
      else
        (case call_vlm E
                (RetrieverPrompt (mode = ''diagram'') source_context caption candidates
                   num_examples) [] True w of
           Inl e \<Rightarrow> Inl e
         | Inr (response, w') \<Rightarrow>
             (case json_loads E response of
                None \<Rightarrow> Inr (py_take num_examples candidates, w')
              | Some data \<Rightarrow>
                  (case selected_ids_of data of
                     Inl e \<Rightarrow> Inl e
                   | Inr selected_ids \<Rightarrow>
                       (case py_iter selected_ids of
                          Inl e \<Rightarrow> Inl e
                        | Inr eids \<Rightarrow>
                            (case select_loop (id_to_example candidates) eids [] of
                               Inl e \<Rightarrow> Inl e
                             | Inr selected \<Rightarrow>
                                 Inr (py_take num_examples selected, w')))))))"

subsection \<open>The planner and the stylist\<close>

text \<open>
  \<^verbatim>\<open>plan\<close> opens the reference images that exist (a file that is no image is skipped
  with a warning) and sends them with the prompt.
\<close>

definition example_images :: "(string \<rightharpoonup> file_content) \<Rightarrow> example list \<Rightarrow> image list" where
  "example_images fs examples =
     List.map_filter
       (\<lambda>ex. if ex_image_path ex = [] then None
             else (case fs (ex_image_path ex) of
                     Some (ImageFile img) \<Rightarrow> Some img
                   | _ \<Rightarrow> None))
       examples"

definition plan ::
  "env \<Rightarrow> string \<Rightarrow> string \<Rightarrow> example list \<Rightarrow> string \<Rightarrow> world \<Rightarrow> error + string \<times> world" where
  "plan E source_context caption examples mode w =
     call_vlm E (PlannerPrompt (mode = ''diagram'') source_context caption examples)
       (example_images (files w) examples) False w"

definition style ::
  "env \<Rightarrow> string \<Rightarrow> string \<Rightarrow> string \<Rightarrow> string \<Rightarrow> world \<Rightarrow> error + string \<times> world" where
  "style E description source_context caption mode w =
     call_vlm E (StylistPrompt (mode = ''diagram'') description source_context caption)
       [] False w"

subsection \<open>The visualizer\<close>

text \<open>Decimal digits of a number, as an f-string prints it.\<close>

definition digit :: "nat \<Rightarrow> char" where
  "digit d = ''0123456789'' ! d"

fun str_nat :: "nat \<Rightarrow> string" where
  "str_nat n =
     (if n < 10 then [digit n]
      else str_nat (n div 10) @ [digit (n mod 10)])"

declare str_nat.simps [simp del]

definition dquote :: char where
  "dquote = CHR 0x22"

definition newline :: char where
  "newline = CHR 0x0A"

definition placeholder :: image where
  "placeholder = Solid 1024 768 (255, 255, 255)"

text \<open>
  \<^verbatim>\<open>_generate_diagram\<close>: one image from the image model; the parent directory of
  the output path is made and the image is saved there.
\<close>

definition generate_diagram ::
  "env \<Rightarrow> json \<Rightarrow> string option \<Rightarrow> nat \<Rightarrow> world \<Rightarrow> error + string \<times> world" where
  "generate_diagram E description output_path iteration w =
     (case generate_image E (DiagramVisualizerPrompt description) w of
        Inl e \<Rightarrow> Inl e
      | Inr (img, w') \<Rightarrow>
          (let out = (case output_path of
                        None \<Rightarrow> ''diagram_iter_'' @ str_nat iteration @ ''.png''
                      | Some p \<Rightarrow> p)
           in case make_dirs E (parent_dir out) w' of
                Inl e \<Rightarrow> Inl e
              | Inr w1 \<Rightarrow>
                  (case write_file E out (ImageFile img) w1 of
                     Inl e \<Rightarrow> Inl e
                   | Inr w2 \<Rightarrow> Inr (out, w2))))"

text \<open>
  \<^verbatim>\<open>_execute_plot_code\<close>: the parent directory of the output path is made and the
  program is run with the output path injected; the result is \<open>False\<close> on a
  non-zero exit code and on a timeout (the only exception caught), and otherwise says
  whether the output file exists. The temporary file holding the program is
  created and removed inside the call and is not part of \<open>files\<close>.
\<close>

definition full_code :: "env \<Rightarrow> string \<Rightarrow> string \<Rightarrow> string" where
  "full_code E code output_path =
     ''OUTPUT_PATH = '' @ [dquote] @ output_path @ [dquote, newline]
       @ strip_output_path E code"

definition execute_plot_code ::
  "env \<Rightarrow> string \<Rightarrow> string \<Rightarrow> world \<Rightarrow> error + bool \<times> world" where
  "execute_plot_code E code output_path w =
     (case make_dirs E (parent_dir output_path) w of
        Inl e \<Rightarrow> Inl e
      | Inr w0 \<Rightarrow>
          (case run_python E (full_code E code output_path) (files w0) of
             Completed returncode fs \<Rightarrow>
               if returncode \<noteq> 0 then Inr (False, w0\<lparr>files := fs\<rparr>)
               else Inr (fs output_path \<noteq> None, w0\<lparr>files := fs\<rparr>)
           | TimeoutExpired fs \<Rightarrow> Inr (False, w0\<lparr>files := fs\<rparr>)
           | RunRaised e \<Rightarrow> Inl e))"

text \<open>
  \<^verbatim>\<open>full_description = description; full_description += text\<close>. On a string this
  builds a new string; on a list it extends the list in place with the characters
  of the text, so that \<open>description\<close> changes too; no other value can be added to.
  The result is the pair of \<open>full_description\<close> and \<open>description\<close> afterwards.
\<close>

fun iadd_str :: "json \<Rightarrow> string \<Rightarrow> error + json \<times> json" where
  "iadd_str (JStr s) t = Inr (JStr (s @ t), JStr s)"
| "iadd_str (JArr xs) t =
     Inr (JArr (xs @ map (\<lambda>c. JStr [c]) t), JArr (xs @ map (\<lambda>c. JStr [c]) t))"
| "iadd_str _ t = Inl TypeError"

definition raw_data_section :: "env \<Rightarrow> json \<Rightarrow> string" where
  "raw_data_section E raw_data =
     [newline, newline] @ ''## Raw Data'' @ [newline] @ fence @ ''json'' @ [newline]
       @ json_dumps E raw_data @ [newline] @ fence"

text \<open>
  The first lines of \<^verbatim>\<open>_generate_plot\<close>: the raw data, when truthy, are appended to
  the description.
\<close>

definition describe_plot :: "env \<Rightarrow> json \<Rightarrow> json \<Rightarrow> error + json \<times> json" where
  "describe_plot E description raw_data =
     (if truthy raw_data then iadd_str description (raw_data_section E raw_data)
      else Inr (description, description))"

text \<open>The output path of \<^verbatim>\<open>_generate_plot\<close>, with its default.\<close>

definition plot_path :: "string option \<Rightarrow> nat \<Rightarrow> string" where
  "plot_path output_path iteration =
     (case output_path of
        None \<Rightarrow> ''plot_iter_'' @ str_nat iteration @ ''.png''
      | Some p \<Rightarrow> p)"

text \<open>
  \<^verbatim>\<open>_generate_plot\<close>. It returns the output path; the model also returns the
  description as the call leaves it (see \<open>iadd_str\<close>).
\<close>

definition generate_plot ::
  "env \<Rightarrow> json \<Rightarrow> json \<Rightarrow> string option \<Rightarrow> nat \<Rightarrow> world
     \<Rightarrow> error + (string \<times> json) \<times> world" where
  "generate_plot E description raw_data output_path iteration w =
     (case describe_plot E description raw_data of
        Inl e \<Rightarrow> Inl e
      | Inr (full_description, description') \<Rightarrow>
          (case call_vlm E (PlotVisualizerPrompt full_description) [] False w of
             Inl e \<Rightarrow> Inl e
           | Inr (code_response, w1) \<Rightarrow>
               (case extract_code code_response of
                  Inl e \<Rightarrow> Inl e
                | Inr code \<Rightarrow>
                    (let out = plot_path output_path iteration
                     in case execute_plot_code E code out w1 of
                          Inl e \<Rightarrow> Inl e
                        | Inr (success, w2) \<Rightarrow>
                            if \<not> success
                            then (case make_dirs E (parent_dir out) w2 of
                                    Inl e \<Rightarrow> Inl e
                                  | Inr w3 \<Rightarrow>
                                      (case write_file E out (ImageFile placeholder) w3 of
                                         Inl e \<Rightarrow> Inl e
                                       | Inr w4 \<Rightarrow> Inr ((out, description'), w4)))
                            else Inr ((out, description'), w2)))))"

definition visualize ::
  "env \<Rightarrow> json \<Rightarrow> string \<Rightarrow> json \<Rightarrow> string option \<Rightarrow> nat \<Rightarrow> world
     \<Rightarrow> error + (string \<times> json) \<times> world" where
  "visualize E description mode raw_data output_path iteration w =
     (if mode = ''plot'' then generate_plot E description raw_data output_path iteration w
      else (case generate_diagram E description output_path iteration w of
              Inl e \<Rightarrow> Inl e
            | Inr (out, w') \<Rightarrow> Inr ((out, description), w')))"

subsection \<open>The critic\<close>

record critique_result =
  critic_suggestions :: json
  revised_description :: json

text \<open>
  The \<^verbatim>\<open>try\<close> block of \<^verbatim>\<open>critique\<close>: a reply that is no JSON gives the empty result;
  \<^verbatim>\<open>data.get\<close> on a value that is no dict raises AttributeError, which the
  \<^verbatim>\<open>except\<close> clause (JSONDecodeError, KeyError) does not catch.
\<close>

definition parse_critic :: "env \<Rightarrow> string \<Rightarrow> error + critique_result" where
  "parse_critic E response =
     (case json_loads E response of
        None \<Rightarrow> Inr \<lparr>critic_suggestions = JArr [], revised_description = JNull\<rparr>
      | Some (JObj kvs) \<Rightarrow>
          Inr \<lparr>critic_suggestions = dict_get kvs ''critic_suggestions'' (JArr []),
               revised_description = dict_get kvs ''revised_description'' JNull\<rparr>
      | Some _ \<Rightarrow> Inl AttributeError)"

text \<open>
  \<^verbatim>\<open>"; ".join(suggestions[:3])\<close>, printed when there are suggestions: a dict cannot be
  sliced (TypeError; KeyError from Python 3.12 on), and every joined item must be a
  string.
\<close>

fun the_strs :: "json list \<Rightarrow> error + string list" where
  "the_strs [] = Inr []"
| "the_strs (JStr s # xs) =
     (case the_strs xs of Inl e \<Rightarrow> Inl e | Inr ss \<Rightarrow> Inr (s # ss))"
| "the_strs (x # xs) = Inl TypeError"

fun summary :: "json \<Rightarrow> error + string" where
  "summary (JArr xs) =
     (case the_strs (take 3 xs) of Inl e \<Rightarrow> Inl e | Inr ss \<Rightarrow> Inr (join_strs ''; '' ss))"
| "summary (JStr s) = Inr (join_strs ''; '' (map (\<lambda>c. [c]) (take 3 s)))"
| "summary _ = Inl TypeError"

definition critique ::
  "env \<Rightarrow> string \<Rightarrow> json \<Rightarrow> string \<Rightarrow> string \<Rightarrow> string \<Rightarrow> world
     \<Rightarrow> error + critique_result \<times> world" where
  "critique E image_path description source_context caption mode w =
     (case files w image_path of
        None \<Rightarrow> Inl FileNotFoundError
      | Some (ImageFile img) \<Rightarrow>
          (case call_vlm E
                  (CriticPrompt (mode = ''diagram'') source_context caption description)
                  [img] True w of
             Inl e \<Rightarrow> Inl e
           | Inr (response, w') \<Rightarrow>
               (case parse_critic E response of
                  Inl e \<Rightarrow> Inl e
                | Inr result \<Rightarrow>
                    (case py_len (critic_suggestions result) of
                       Inl e \<Rightarrow> Inl e
                     | Inr n \<Rightarrow>
                         if 0 < n
                         then (case summary (critic_suggestions result) of
                                 Inl e \<Rightarrow> Inl e
                               | Inr s \<Rightarrow> Inr (result, w'))
                         else Inr (result, w'))))
      | Some _ \<Rightarrow> Inl UnidentifiedImageError)"

subsection \<open>The pipeline\<close>

definition NUM_RETRIEVAL_EXAMPLES :: int where
  "NUM_RETRIEVAL_EXAMPLES = 10"

text \<open>
  The run directory \<^verbatim>\<open>Path(output_dir) / run_id\<close> and the paths under it:
  \<open>path_join dir name\<close> is \<^verbatim>\<open>str(dir / name)\<close>.
\<close>

definition run_dir_of :: "env \<Rightarrow> string \<Rightarrow> pure_path" where
  "run_dir_of E output_dir = path_div (parse_path output_dir) (run_id E)"

definition path_join :: "pure_path \<Rightarrow> string \<Rightarrow> string" where
  "path_join dir name = path_str (path_div dir name)"

definition iter_png :: "pure_path \<Rightarrow> nat \<Rightarrow> string" where
  "iter_png run_dir n = path_join run_dir (''iter_'' @ str_nat n @ ''.png'')"

definition iter_details :: "pure_path \<Rightarrow> nat \<Rightarrow> string" where
  "iter_details run_dir n = path_join run_dir (''iter_'' @ str_nat n @ ''_details.json'')"

text \<open>
  One record per executed iteration: \<open>it_input\<close> is the description the iteration
  starts with (the one given to the visualizer), \<open>it_image\<close> the path the visualizer
  returned, and the other fields are the \<^verbatim>\<open>iter_data\<close> written to the details file.
\<close>

record iteration_record =
  it_number :: nat
  it_input :: json
  it_image :: string
  it_description :: json
  it_suggestions :: json
  it_revised :: json

definition iter_data :: "iteration_record \<Rightarrow> json" where
  "iter_data r =
     JObj [(''iteration'', JInt (int (it_number r))),
           (''description'', it_description r),
           (''critic_suggestions'', it_suggestions r),
           (''revised_description'', it_revised r)]"

text \<open>
  The variables of the refinement loop, and the records of the iterations run so far.
\<close>

record loop_state =
  current_description :: json
  final_image_path :: "string option"
  iterations_run :: "iteration_record list"

text \<open>
  The loop \<^verbatim>\<open>for i in range(iterations)\<close> of \<^verbatim>\<open>generate\<close>, over the indices still to
  run. An iteration renders, critiques and writes its details; it goes on to the
  next index when there are suggestions and the revised description is truthy, and
  breaks otherwise.
\<close>

fun refine_loop ::
  "env \<Rightarrow> string \<Rightarrow> string \<Rightarrow> string \<Rightarrow> json \<Rightarrow> pure_path \<Rightarrow> nat list \<Rightarrow> loop_state
     \<Rightarrow> world \<Rightarrow> error + loop_state \<times> world" where
  "refine_loop E source_context caption mode raw_data run_dir [] st w = Inr (st, w)"
| "refine_loop E source_context caption mode raw_data run_dir (i # rest) st w =
     (case visualize E (current_description st) mode raw_data
             (Some (iter_png run_dir (i + 1))) (i + 1) w of
        Inl e \<Rightarrow> Inl e
      | Inr ((image_path, description), w1) \<Rightarrow>
          (case critique E image_path description source_context caption mode w1 of
             Inl e \<Rightarrow> Inl e
           | Inr (crit, w2) \<Rightarrow>
               (let r = \<lparr>it_number = i + 1, it_input = current_description st,
                         it_image = image_path, it_description = description,
                         it_suggestions = critic_suggestions crit,
                         it_revised = revised_description crit\<rparr>;
                    st' = \<lparr>current_description = description,
                           final_image_path = Some image_path,
                           iterations_run = iterations_run st @ [r]\<rparr>
                in case write_file E (iter_details run_dir (i + 1))
                          (JsonFile (iter_data r)) w2 of
                     Inl e \<Rightarrow> Inl e
                   | Inr w3 \<Rightarrow>
                       (case py_len (critic_suggestions crit) of
                          Inl e \<Rightarrow> Inl e
                        | Inr n \<Rightarrow>
                            if 0 < n \<and> truthy (revised_description crit)
                            then refine_loop E source_context caption mode raw_data run_dir
                                   rest (st'\<lparr>current_description := revised_description crit\<rparr>)
                                   w3
                            else Inr (st', w3)))))"

text \<open>\<^verbatim>\<open>shutil.copy2(src, dst)\<close>; the source is \<^verbatim>\<open>None\<close> when no iteration ran.\<close>

definition copy2 :: "env \<Rightarrow> string option \<Rightarrow> string \<Rightarrow> world \<Rightarrow> error + world" where
  "copy2 E src dst w =
     (case src of
        None \<Rightarrow> Inl TypeError
      | Some p \<Rightarrow>
          (case files w p of
             None \<Rightarrow> Inl FileNotFoundError
           | Some c \<Rightarrow> write_file E dst c w))"

text \<open>
  Phase 1 of \<^verbatim>\<open>generate\<close>: the candidates are loaded, then retriever, planner and
  stylist run once each, and the planning record is written.
\<close>

definition planning_data :: "example list \<Rightarrow> string \<Rightarrow> json" where
  "planning_data examples description =
     JObj [(''retrieved_examples'', JArr (map (\<lambda>e. JStr (ex_id e)) examples)),
           (''initial_description'', JStr description)]"

definition phase1 ::
  "env \<Rightarrow> string \<Rightarrow> string \<Rightarrow> string option \<Rightarrow> string \<Rightarrow> pure_path \<Rightarrow> world
     \<Rightarrow> error + string \<times> world" where
  "phase1 E source_context caption reference_dir mode run_dir w =
     (case load_candidates E reference_dir (files w) of
        Inl e \<Rightarrow> Inl e
      | Inr candidates \<Rightarrow>
          (case retrieve E source_context caption candidates NUM_RETRIEVAL_EXAMPLES mode w of
             Inl e \<Rightarrow> Inl e
           | Inr (examples, w1) \<Rightarrow>
               (case plan E source_context caption examples mode w1 of
                  Inl e \<Rightarrow> Inl e
                | Inr (description, w2) \<Rightarrow>
                    (case style E description source_context caption mode w2 of
                       Inl e \<Rightarrow> Inl e
                     | Inr (styled, w3) \<Rightarrow>
                         (case write_file E (path_join run_dir ''planning.json'')
                                 (JsonFile (planning_data examples styled)) w3 of
                            Inl e \<Rightarrow> Inl e
                          | Inr w4 \<Rightarrow> Inr (styled, w4))))))"

text \<open>The loop of Phase 2, from its initial variables.\<close>

definition phase2 ::
  "env \<Rightarrow> string \<Rightarrow> string \<Rightarrow> string \<Rightarrow> json \<Rightarrow> pure_path \<Rightarrow> int \<Rightarrow> string \<Rightarrow> world
     \<Rightarrow> error + loop_state \<times> world" where
  "phase2 E source_context caption mode raw_data run_dir iterations description w =
     refine_loop E source_context caption mode raw_data run_dir [0..<nat iterations]
       \<lparr>current_description = JStr description, final_image_path = None,
        iterations_run = []\<rparr> w"

text \<open>
  \<^verbatim>\<open>generate\<close>: the run directory is made, then Phase 1, Phase 2 and the copy of
  the final image.
\<close>

definition generate ::
  "env \<Rightarrow> string \<Rightarrow> string \<Rightarrow> string option \<Rightarrow> string \<Rightarrow> int \<Rightarrow> string \<Rightarrow> json \<Rightarrow> world
     \<Rightarrow> error + string \<times> world" where
  "generate E source_context caption reference_dir mode iterations output_dir raw_data w =
     (let run_dir = run_dir_of E output_dir
      in case make_dirs E (path_str run_dir) w of
           Inl e \<Rightarrow> Inl e
         | Inr w0 \<Rightarrow>
             (case phase1 E source_context caption reference_dir mode run_dir w0 of
                Inl e \<Rightarrow> Inl e
              | Inr (description, w1) \<Rightarrow>
                  (case phase2 E source_context caption mode raw_data run_dir iterations
                          description w1 of
                     Inl e \<Rightarrow> Inl e
                   | Inr (st, w2) \<Rightarrow>
                       (let final_output = path_join run_dir ''final_output.png''
                        in case copy2 E (final_image_path st) final_output w2 of
                             Inl e \<Rightarrow> Inl e
                           | Inr w3 \<Rightarrow> Inr (final_output, w3)))))"

subsection \<open>Notions used to state the properties\<close>

text \<open>
  \<open>split_at sub s\<close> cuts \<open>s\<close> at the first occurrence of \<open>sub\<close>: what stands before
  it and what stands after it. The opening marker of a response is the Python marker
  when the response has one, else the bare fence; \<open>first_block\<close> is the text between
  the first opening marker and the next fence after it, when there is one.
\<close>

fun split_at :: "'a list \<Rightarrow> 'a list \<Rightarrow> ('a list \<times> 'a list) option" where
  "split_at sub [] = (if sub = [] then Some ([], []) else None)"
| "split_at sub (x # xs) =
     (if prefix sub (x # xs) then Some ([], drop (length sub) (x # xs))
      else map_option (\<lambda>(a, b). (x # a, b)) (split_at sub xs))"

definition open_marker :: "string \<Rightarrow> string" where
  "open_marker response = (if contains py_fence response then py_fence else fence)"

definition first_block :: "string \<Rightarrow> string option" where
  "first_block response =
     (case split_at (open_marker response) response of
        None \<Rightarrow> None
      | Some (before, rest) \<Rightarrow>
          (case split_at fence rest of
             None \<Rightarrow> None
           | Some (body, after) \<Rightarrow> Some body))"

text \<open>What a call returns, \<open>None\<close> when it raises.\<close>

definition returned :: "error + 'a \<times> world \<Rightarrow> 'a option" where
  "returned r = (case r of Inl e \<Rightarrow> None | Inr (x, w) \<Rightarrow> Some x)"



fun hashable :: "json \<Rightarrow> bool" where
  "hashable (JArr xs) = False"
| "hashable (JObj kvs) = False"
| "hashable x = True"




text \<open>The critic made suggestions: their list has a positive length.\<close>

definition has_suggestions :: "json \<Rightarrow> bool" where
  "has_suggestions x = (case py_len x of Inl e \<Rightarrow> False | Inr n \<Rightarrow> 0 < n)"

text \<open>
  An iteration calls for another one: there are suggestions and the revised
  description is truthy (not null, empty, zero or false).
\<close>

definition revises :: "iteration_record \<Rightarrow> bool" where
  "revises r = (has_suggestions (it_suggestions r) \<and> truthy (it_revised r))"

text \<open>
  The records of a run of the loop over the indices \<open>is\<close> from the description
  \<open>d\<close>: each iteration starts from the description the one before it adopted, and
  only an iteration that calls for another one is followed by one.
\<close>

fun chained :: "nat list \<Rightarrow> json \<Rightarrow> iteration_record list \<Rightarrow> bool" where
  "chained [] d rs = (rs = [])"
| "chained (i # rest) d [] = False"
| "chained (i # rest) d (r # rs) =
     (it_number r = i + 1 \<and> it_input r = d \<and>
      (if revises r then chained rest (it_revised r) rs else rs = []))"

subsection \<open>A concrete environment\<close>

text \<open>
  An environment for running the definitions on concrete inputs: the text model
  answers its \<open>k\<close>-th request with \<open>reply k\<close>, the image model with \<open>Picture k\<close>, the
  pool of candidates is \<open>pool\<close>, and every file and directory can be written.
\<close>

definition demo_env ::
  "(nat \<Rightarrow> string) \<Rightarrow> (string \<Rightarrow> json option)
     \<Rightarrow> (string \<Rightarrow> (string \<rightharpoonup> file_content) \<Rightarrow> run_result) \<Rightarrow> example list \<Rightarrow> env" where
  "demo_env reply loads run pool =
     \<lparr>vlm = (\<lambda>k rq. Inr (reply k)),
      image_model = (\<lambda>k p. Inr (Picture k)),
      json_loads = loads,
      json_dumps = (\<lambda>j. ''data''),
      run_python = run,
      strip_output_path = (\<lambda>c. c),
      load_candidates = (\<lambda>dir fs. Inr pool),
      run_id = ''run_1'',
      write_error = (\<lambda>path c fs. None),
      mkdir_error = (\<lambda>dir fs. None)\<rparr>"

definition demo_world :: world where
  "demo_world = \<lparr>files = Map.empty, vlm_calls = [], image_calls = []\<rparr>"

definition demo_example :: "string \<Rightarrow> example" where
  "demo_example i =
     \<lparr>ex_id = i, ex_source_context = ''context'', ex_caption = ''caption'',
      ex_image_path = [], ex_category = None\<rparr>"

text \<open>
  An environment in which every reply of the text model is \<open>reply\<close>, which
  \<^verbatim>\<open>json.loads\<close> parses to \<open>parsed\<close>.
\<close>

definition reply_env :: "string \<Rightarrow> json option \<Rightarrow> env" where
  "reply_env reply parsed =
     demo_env (\<lambda>k. reply) (\<lambda>s. if s = reply then parsed else None)
       (\<lambda>c fs. Completed 0 fs) []"

text \<open>
  An environment in which the reply to request number \<open>first\<close> parses to one
  suggestion with a revised description, the reply to request number \<open>first + 1\<close> to
  one suggestion without a revised description, and every other reply is no JSON.
\<close>

definition critic_env :: "nat \<Rightarrow> env" where
  "critic_env first =
     demo_env (\<lambda>k. if k = first then ''a'' else if k = first + 1 then ''b'' else ''c'')
       (\<lambda>s. if s = ''a''
             then Some (JObj [(''critic_suggestions'', JArr [JStr ''x'']),
                              (''revised_description'', JStr ''d1'')])
             else if s = ''b''
             then Some (JObj [(''critic_suggestions'', JArr [JStr ''y''])])
             else None)
       (\<lambda>c fs. Completed 0 fs) []"



section \<open>Properties of code extraction\<close>

lemma contains_find_sub: "contains sub s \<longleftrightarrow> find_sub sub s \<noteq> None"
  by (induction s) auto

lemma split_at_find_sub:
  "split_at sub s = map_option (\<lambda>k. (take k s, drop (k + length sub) s)) (find_sub sub s)"
  by (induction s) (auto simp: option.map_comp comp_def)

lemma find_sub_le: "find_sub sub s = Some k \<Longrightarrow> k + length sub \<le> length s"
  by (induction s arbitrary: k) (auto split: if_splits dest: prefix_length_le)

lemma find_sub_prefix: "find_sub sub s = Some k \<Longrightarrow> prefix sub (drop k s)"
  by (induction s arbitrary: k) (auto split: if_splits)

lemma find_sub_first: "find_sub sub s = Some k \<Longrightarrow> j < k \<Longrightarrow> \<not> prefix sub (drop j s)"
proof (induction s arbitrary: k j)
  case Nil then show ?case by (auto split: if_splits)
next
  case (Cons x xs)
  then show ?case by (cases j) (auto split: if_splits)
qed

lemma find_sub_None: "find_sub sub s = None \<Longrightarrow> j \<le> length s \<Longrightarrow> \<not> prefix sub (drop j s)"
proof (induction s arbitrary: j)
  case Nil then show ?case by (auto split: if_splits)
next
  case (Cons x xs)
  then show ?case by (cases j) (auto split: if_splits)
qed

lemma split_at_Some:
  assumes "split_at sub s = Some (a, b)"
  shows "s = a @ sub @ b \<and> (\<forall>j<length a. \<not> prefix sub (drop j s))"
proof -
  from assms obtain k where k: "find_sub sub s = Some k"
    and a: "a = take k s" and b: "b = drop (k + length sub) s"
    by (auto simp: split_at_find_sub)
  from find_sub_prefix [OF k] obtain r where r: "drop k s = sub @ r"
    by (auto simp: prefix_def)
  then have "drop (length sub) (drop k s) = r" by simp
  then have "b = r" by (simp add: b add.commute)
  moreover have "s = take k s @ drop k s" by simp
  ultimately have "s = a @ sub @ b" using r a by metis
  moreover have "\<not> prefix sub (drop j s)" if "j < length a" for j
  proof -
    from that have "j < k" by (simp add: a)
    then show ?thesis by (rule find_sub_first [OF k])
  qed
  ultimately show ?thesis by blast
qed

lemma contains_append: "contains (a @ b) s \<Longrightarrow> contains a s"
  by (induction s) (auto dest: append_prefixD)

lemma py_index_0: "py_index s sub 0 = find_sub sub s"
  by (cases "find_sub sub s") (simp_all add: py_index_def)

lemma py_index_after:
  "find_sub m s = Some k \<Longrightarrow>
   py_index s sub (k + length m) =
     map_option (\<lambda>q. k + length m + q) (find_sub sub (drop (k + length m) s))"
  using find_sub_le [of m s k] by (simp add: py_index_def)

lemma extract_with_marker:
  assumes "find_sub m response = Some k"
  shows "(case py_index response fence (k + length m) of
            None \<Rightarrow> Inl ValueError
          | Some stop \<Rightarrow> Inr (py_strip (py_slice response (k + length m) stop))) =
         (case split_at m response of
            None \<Rightarrow> Inl ValueError
          | Some (before, rest) \<Rightarrow>
              (case split_at fence rest of
                 None \<Rightarrow> Inl ValueError
               | Some (body, after) \<Rightarrow> Inr (py_strip body)))"
  using assms
  by (cases "find_sub fence (drop (k + length m) response)")
     (simp_all add: py_index_after split_at_find_sub py_slice_def)

lemma py_fence_len: "length py_fence = 9" by (simp add: py_fence_def fence_def)
lemma fence_len: "length fence = 3" by (simp add: fence_def)

lemma extract_code_marker:
  "extract_code response =
     (if contains fence response then
        (case first_block response of None \<Rightarrow> Inl ValueError | Some body \<Rightarrow> Inr (py_strip body))
      else Inr (py_strip response))"
proof (cases "contains py_fence response")
  case True
  then obtain k where k: "find_sub py_fence response = Some k"
    by (auto simp: contains_find_sub)
  from True have cf: "contains fence response"
    by (auto simp: py_fence_def dest: contains_append)
  have "extract_code response =
        (case py_index response fence (k + length py_fence) of
           None \<Rightarrow> Inl ValueError
         | Some stop \<Rightarrow> Inr (py_strip (py_slice response (k + length py_fence) stop)))"
    using True k by (simp add: extract_code_def py_index_0 Let_def)
  also note extract_with_marker [OF k]
  finally show ?thesis using True cf
    by (simp add: first_block_def open_marker_def split: option.splits)
next
  case False
  show ?thesis
  proof (cases "contains fence response")
    case True
    then obtain k where k: "find_sub fence response = Some k"
      by (auto simp: contains_find_sub)
    have "extract_code response =
          (case py_index response fence (k + 3) of
             None \<Rightarrow> Inl ValueError
           | Some stop \<Rightarrow> Inr (py_strip (py_slice response (k + 3) stop)))"
      using True False k by (simp add: extract_code_def py_index_0 Let_def)
    also note extract_with_marker [OF k, unfolded fence_len]
    finally show ?thesis using True False
      by (simp add: first_block_def open_marker_def split: option.splits)
  next
    case nf: False
    with False show ?thesis
      by (simp add: extract_code_def)
  qed
qed

section \<open>Properties of the retriever\<close>







lemma select_loop_returns_hashable:
  "select_loop m eids acc = Inr res \<Longrightarrow> list_all hashable eids"
  by (induction m eids acc rule: select_loop.induct) (auto split: option.splits)




lemma py_take_nonneg: "0 \<le> n \<Longrightarrow> py_take n xs = take (nat n) xs"
  by (simp add: py_take_def)



text \<open>
  C3. A pool whose size is at most the cap, the empty pool included, is returned as it
  is, in its order, and the world is unchanged: no request is sent to the model.
\<close>

theorem retrieve_pass_through:
  "int (length candidates) \<le> num_examples \<Longrightarrow>
   retrieve E source_context caption candidates num_examples mode w = Inr (candidates, w)"
  by (simp add: retrieve_def)

theorem retrieve_pass_through_witness:
  "int (length [demo_example ''a'', demo_example ''b'']) \<le> 10 \<and>
   retrieve (demo_env (\<lambda>k. []) (\<lambda>s. None) (\<lambda>c fs. Completed 0 fs) []) ''ctx'' ''cap''
     [demo_example ''a'', demo_example ''b''] 10 ''diagram'' demo_world
   = Inr ([demo_example ''a'', demo_example ''b''], demo_world) \<and>
   retrieve (demo_env (\<lambda>k. []) (\<lambda>s. None) (\<lambda>c fs. Completed 0 fs) []) ''ctx'' ''cap''
     [] 10 ''diagram'' demo_world
   = Inr ([], demo_world)"
  using retrieve_pass_through [of "[demo_example ''a'', demo_example ''b'']" 10
      "demo_env (\<lambda>k. []) (\<lambda>s. None) (\<lambda>c fs. Completed 0 fs) []" "''ctx''" "''cap''"
      "''diagram''" demo_world]
    retrieve_pass_through [of "[]" 10
      "demo_env (\<lambda>k. []) (\<lambda>s. None) (\<lambda>c fs. Completed 0 fs) []" "''ctx''" "''cap''"
      "''diagram''" demo_world]
  by simp

text \<open>
  C2, as amended. When the pool is larger than the cap and the model has replied: a
  reply that is no JSON gives the first \<open>num_examples\<close> candidates in pool order; a
  reply that is a JSON object without any of the three keys gives the empty list.
\<close>

theorem retrieve_fallback:
  assumes "num_examples < int (length candidates)" and "0 \<le> num_examples"
    and "call_vlm E (RetrieverPrompt (mode = ''diagram'') source_context caption candidates
           num_examples) [] True w = Inr (response, w')"
  shows "(json_loads E response = None \<longrightarrow>
            retrieve E source_context caption candidates num_examples mode w
            = Inr (take (nat num_examples) candidates, w')) \<and>
         (\<forall>kvs. json_loads E response = Some (JObj kvs) \<and>
                map_of kvs ''selected_ids'' = None \<and>
                map_of kvs ''top_10_papers'' = None \<and>
                map_of kvs ''top_10_plots'' = None \<longrightarrow>
            retrieve E source_context caption candidates num_examples mode w
            = Inr ([], w'))"
proof -
  from assms(1,2) have ne: "candidates \<noteq> []" by auto
  show ?thesis
    using assms ne
    by (auto simp: retrieve_def py_take_nonneg dict_get_def py_or_def py_take_def)
qed

theorem retrieve_fallback_witness:
  "returned (retrieve
       (demo_env (\<lambda>k. ''no json'') (\<lambda>s. if s = ''{}'' then Some (JObj []) else None)
          (\<lambda>c fs. Completed 0 fs) [])
       ''ctx'' ''cap'' [demo_example ''a'', demo_example ''b'', demo_example ''c''] 2
       ''diagram'' demo_world)
   = Some [demo_example ''a'', demo_example ''b''] \<and>
   returned (retrieve
       (demo_env (\<lambda>k. ''{}'') (\<lambda>s. if s = ''{}'' then Some (JObj []) else None)
          (\<lambda>c fs. Completed 0 fs) [])
       ''ctx'' ''cap'' [demo_example ''a'', demo_example ''b'', demo_example ''c''] 2
       ''diagram'' demo_world)
   = Some []"
  using
    retrieve_fallback [of 2 "[demo_example ''a'', demo_example ''b'', demo_example ''c'']"
      "demo_env (\<lambda>k. ''no json'') (\<lambda>s. if s = ''{}'' then Some (JObj []) else None)
          (\<lambda>c fs. Completed 0 fs) []" "''diagram''" "''ctx''" "''cap''" demo_world
      "''no json''"]
    retrieve_fallback [of 2 "[demo_example ''a'', demo_example ''b'', demo_example ''c'']"
      "demo_env (\<lambda>k. ''{}'') (\<lambda>s. if s = ''{}'' then Some (JObj []) else None)
          (\<lambda>c fs. Completed 0 fs) []" "''diagram''" "''ctx''" "''cap''" demo_world
      "''{}''"]
  by (simp add: call_vlm_def demo_env_def demo_world_def returned_def)

text \<open>
  C2 as stated fails: on the reply \<^verbatim>\<open>{}\<close>, which parses and has none of the keys, the
  retriever does not return the first two of the three candidates.
\<close>

theorem retrieve_absent_key_counterexample:
  "json_loads (reply_env ''{}'' (Some (JObj []))) ''{}'' = Some (JObj []) \<and>
   returned (retrieve (reply_env ''{}'' (Some (JObj []))) ''ctx'' ''cap''
       [demo_example ''a'', demo_example ''b'', demo_example ''c''] 2 ''diagram'' demo_world)
   = Some [] \<and>
   returned (retrieve (reply_env ''{}'' (Some (JObj []))) ''ctx'' ''cap''
       [demo_example ''a'', demo_example ''b'', demo_example ''c''] 2 ''diagram'' demo_world)
   \<noteq> Some (take 2 [demo_example ''a'', demo_example ''b'', demo_example ''c''])"
  by (simp add: retrieve_def call_vlm_def reply_env_def demo_env_def demo_world_def
      returned_def dict_get_def py_or_def py_take_def)




lemma first_block_contains:
  assumes "first_block response = Some body"
  shows "contains fence response"
proof (cases "contains py_fence response")
  case True
  then show ?thesis by (auto simp: py_fence_def dest: contains_append)
next
  case False
  with assms show ?thesis
    by (auto simp: first_block_def open_marker_def split_at_find_sub contains_find_sub
        split: option.splits)
qed

text \<open>
  What \<open>first_block\<close> means: the response is cut at the first occurrence of its opening
  marker, and what follows is cut at the first fence.
\<close>

lemma first_block_Some:
  assumes "first_block response = Some body"
  shows "\<exists>before after.
           response = before @ open_marker response @ body @ fence @ after \<and>
           (\<forall>j<length before. \<not> prefix (open_marker response) (drop j response)) \<and>
           (\<forall>j<length body. \<not> prefix fence (drop j (body @ fence @ after)))"
proof -
  from assms obtain before rest after where
    1: "split_at (open_marker response) response = Some (before, rest)" and
    2: "split_at fence rest = Some (body, after)"
    by (auto simp: first_block_def split: option.splits)
  from split_at_Some [OF 2] have r: "rest = body @ fence @ after"
    and n2: "\<forall>j<length body. \<not> prefix fence (drop j rest)" by blast+
  from split_at_Some [OF 1] have
    "response = before @ open_marker response @ body @ fence @ after"
    and "\<forall>j<length before. \<not> prefix (open_marker response) (drop j response)"
    unfolding r by blast+
  moreover from n2 have "\<forall>j<length body. \<not> prefix fence (drop j (body @ fence @ after))"
    unfolding r .
  ultimately show ?thesis by blast
qed

text \<open>
  C8, as amended. When the first opening marker of the response (the Python marker if
  the response has one, else the bare fence) is followed by a fence, code extraction
  returns the text between the two, stripped of leading and trailing whitespace; when
  the response has no fence at all, it returns the whole response, stripped likewise.
\<close>

theorem extract_code_first_block:
  "(first_block response = Some body \<longrightarrow> extract_code response = Inr (py_strip body)) \<and>
   (\<not> contains fence response \<longrightarrow> extract_code response = Inr (py_strip response))"
  using first_block_contains [of response body]
  by (auto simp: extract_code_marker)

theorem extract_code_first_block_witness:
  "first_block (fence @ ''python'' @ [newline] @ ''x = 1'' @ [newline] @ fence @ '' done'')
   = Some ([newline] @ ''x = 1'' @ [newline]) \<and>
   extract_code (fence @ ''python'' @ [newline] @ ''x = 1'' @ [newline] @ fence @ '' done'')
   = Inr ''x = 1'' \<and>
   first_block (fence @ ''a'' @ fence @ fence @ ''python b'' @ fence) = Some '' b'' \<and>
   extract_code (fence @ ''a'' @ fence @ fence @ ''python b'' @ fence) = Inr ''b'' \<and>
   first_block (''see '' @ fence @ ''json {}'' @ fence) = Some ''json {}'' \<and>
   extract_code (''see '' @ fence @ ''json {}'' @ fence) = Inr ''json {}'' \<and>
   \<not> contains fence '' x = 1 '' \<and>
   extract_code '' x = 1 '' = Inr ''x = 1''"
  using
    extract_code_first_block
      [of "fence @ ''python'' @ [newline] @ ''x = 1'' @ [newline] @ fence @ '' done''"
          "[newline] @ ''x = 1'' @ [newline]"]
    extract_code_first_block
      [of "fence @ ''a'' @ fence @ fence @ ''python b'' @ fence" "'' b''"]
    extract_code_first_block
      [of "''see '' @ fence @ ''json {}'' @ fence" "''json {}''"]
    extract_code_first_block [of "'' x = 1 ''" "[]"]
  by (simp add: first_block_def open_marker_def fence_def py_fence_def newline_def
      py_strip_def is_space_def)

text \<open>
  C8 as stated fails: a response without fences that starts with a space is not
  returned in full.
\<close>

theorem extract_code_strip_counterexample:
  "\<not> contains fence '' x'' \<and> extract_code '' x'' \<noteq> Inr '' x''"
  by (simp add: extract_code_def fence_def py_fence_def py_strip_def is_space_def)

text \<open>
  C9. A response that has a fence but no fence after its first opening marker makes
  code extraction raise ValueError, and the plot renderer raises it too: it returns
  no artifact, neither one made from the whole response nor a placeholder.
\<close>

theorem extract_code_unclosed:
  assumes "contains fence response" and "first_block response = None"
    and "describe_plot E description raw_data = Inr (full_description, description')"
    and "call_vlm E (PlotVisualizerPrompt full_description) [] False w = Inr (response, w')"
  shows "extract_code response = Inl ValueError \<and>
         generate_plot E description raw_data output_path iteration w = Inl ValueError \<and>
         visualize E description ''plot'' raw_data output_path iteration w = Inl ValueError"
  using assms by (simp add: extract_code_marker generate_plot_def visualize_def)

theorem extract_code_unclosed_witness:
  "contains fence (fence @ ''python'' @ [newline] @ ''x = 1'') \<and>
   first_block (fence @ ''python'' @ [newline] @ ''x = 1'') = None \<and>
   extract_code (fence @ ''python'' @ [newline] @ ''x = 1'') = Inl ValueError \<and>
   generate_plot
     (demo_env (\<lambda>k. fence @ ''python'' @ [newline] @ ''x = 1'') (\<lambda>s. None)
        (\<lambda>c fs. Completed 0 fs) [])
     (JStr ''d'') JNull (Some ''out.png'') 1 demo_world = Inl ValueError \<and>
   visualize
     (demo_env (\<lambda>k. fence @ ''python'' @ [newline] @ ''x = 1'') (\<lambda>s. None)
        (\<lambda>c fs. Completed 0 fs) [])
     (JStr ''d'') ''plot'' JNull (Some ''out.png'') 1 demo_world = Inl ValueError"
  using
    extract_code_unclosed
      [of "fence @ ''python'' @ [newline] @ ''x = 1''"
          "demo_env (\<lambda>k. fence @ ''python'' @ [newline] @ ''x = 1'') (\<lambda>s. None)
             (\<lambda>c fs. Completed 0 fs) []"
          "JStr ''d''" JNull "JStr ''d''" "JStr ''d''" demo_world
          "demo_world\<lparr>vlm_calls :=
             [\<lparr>rq_prompt = PlotVisualizerPrompt (JStr ''d''), rq_images = [],
               rq_json_mode = False\<rparr>]\<rparr>"
          "Some ''out.png''" 1]
  by (simp add: first_block_def open_marker_def fence_def py_fence_def newline_def
      describe_plot_def call_vlm_def demo_env_def demo_world_def)

section \<open>Properties of the plot renderer and of the critic\<close>



lemma write_file_Inr:
  "write_file E path c w = Inr w' \<longleftrightarrow>
   write_error E path c (files w) = None \<and> w' = w\<lparr>files := (files w)(path \<mapsto> c)\<rparr>"
  by (auto simp: write_file_def split: option.splits)









section \<open>Properties of the refinement loop\<close>

lemma chained_Nil [simp]: "chained is d [] \<longleftrightarrow> is = []"
  by (cases "is") auto

lemma chained_length: "chained is d rs \<Longrightarrow> length rs \<le> length is"
  by (induction "is" d rs rule: chained.induct) (auto split: if_splits)

lemma chained_number:
  "chained is d rs \<Longrightarrow> j < length rs \<Longrightarrow> it_number (rs ! j) = is ! j + 1"
proof (induction "is" d rs arbitrary: j rule: chained.induct)
  case (3 i rest d r rs)
  then show ?case by (cases j) (auto split: if_splits)
qed auto

lemma chained_next:
  "chained is d rs \<Longrightarrow> j + 1 < length rs \<Longrightarrow>
   revises (rs ! j) \<and> it_input (rs ! (j + 1)) = it_revised (rs ! j)"
proof (induction "is" d rs arbitrary: j rule: chained.induct)
  case (3 i rest d r rs)
  show ?case
  proof (cases j)
    case 0
    with 3 show ?thesis by (cases rs; cases rest) (auto split: if_splits)
  next
    case (Suc k)
    with 3 show ?thesis by (auto split: if_splits)
  qed
qed auto

lemma chained_last:
  "chained is d rs \<Longrightarrow> j + 1 = length rs \<Longrightarrow> j + 1 < length is \<Longrightarrow> \<not> revises (rs ! j)"
proof (induction "is" d rs arbitrary: j rule: chained.induct)
  case (3 i rest d r rs)
  show ?case
  proof (cases j)
    case 0
    with "3.prems" have "rs = []" and "rest \<noteq> []" by auto
    with "3.prems" 0 show ?thesis by (auto split: if_splits)
  next
    case (Suc k)
    with "3.prems" have k: "k + 1 = length rs" "k + 1 < length rest" by auto
    then have "rs \<noteq> []" by auto
    with "3.prems"(1) have rv: "revises r" and ch: "chained rest (it_revised r) rs"
      by (auto split: if_splits)
    from "3.IH" [OF rv ch k] Suc show ?thesis by simp
  qed
qed auto

lemma chained_first:
  "chained is d rs \<Longrightarrow> is \<noteq> [] \<Longrightarrow> rs \<noteq> [] \<and> it_input (rs ! 0) = d"
  by (induction "is" d rs rule: chained.induct) auto

lemma chained_last_revises:
  "chained is d rs \<Longrightarrow> rs \<noteq> [] \<Longrightarrow> revises (last rs) \<Longrightarrow> length rs = length is"
  by (induction "is" d rs rule: chained.induct) (auto split: if_splits)

lemma visualize_path:
  "visualize E d mode raw (Some p) n w = Inr ((image_path, d'), w1) \<Longrightarrow> image_path = p"
  by (auto simp: visualize_def generate_diagram_def generate_plot_def plot_path_def Let_def
      split: if_splits sum.splits prod.splits)

lemma critique_Inr:
  assumes "critique E image_path d sc cap mode w1 = Inr (crit, w2)"
  shows "files w2 = files w1"
    and "\<exists>img. files w1 image_path = Some (ImageFile img)"
    and "\<exists>n. py_len (critic_suggestions crit) = Inr n"
  using assms
  by (auto simp: critique_def call_vlm_def Let_def
      split: option.splits file_content.splits sum.splits prod.splits if_splits)

text \<open>
  The names the pipeline puts under the run directory are plain: not empty, not a
  dot, and without a slash. Joining a plain name appends it as the last part.
\<close>

lemma split_on_plain: "c \<notin> set s \<Longrightarrow> split_on c s = [s]"
  by (induction s) auto

lemma parse_path_plain:
  assumes "s \<noteq> []" and "s \<noteq> ''.''" and "CHR ''/'' \<notin> set s"
  shows "parse_path s = ([], [s])"
proof -
  from assms(1,3) have "takeWhile (\<lambda>c. c = CHR ''/'') s = []"
    by (cases s) auto
  moreover from this have "dropWhile (\<lambda>c. c = CHR ''/'') s = s"
    using takeWhile_dropWhile_id [of "\<lambda>c. c = CHR ''/''" s] by simp
  ultimately show ?thesis
    using assms by (simp add: parse_path_def split_on_plain)
qed

lemma join_strs_snoc:
  "join_strs sep (ps @ [a]) = concat (map (\<lambda>p. p @ sep) ps) @ a"
proof (induction ps)
  case Nil
  show ?case by simp
next
  case (Cons p ps)
  then show ?case by (cases ps) auto
qed

lemma path_join_plain:
  assumes "s \<noteq> []" and "s \<noteq> ''.''" and "CHR ''/'' \<notin> set s"
  shows "path_join rd s = fst rd @ concat (map (\<lambda>p. p @ ''/'') (snd rd)) @ s"
  using parse_path_plain [OF assms]
  by (simp add: path_join_def path_div_def path_str_def join_strs_snoc)

lemma digit_no_slash: "d < 10 \<Longrightarrow> digit d \<noteq> CHR ''/''"
proof -
  assume "d < 10"
  then have "d \<in> {0, 1, 2, 3, 4, 5, 6, 7, 8, 9}" by auto
  then show ?thesis by (auto simp: digit_def)
qed

lemma str_nat_no_slash: "CHR ''/'' \<notin> set (str_nat n)"
proof (induction n rule: str_nat.induct)
  case (1 n)
  show ?case
  proof (cases "n < 10")
    case True
    then show ?thesis using digit_no_slash [of n] by (simp add: str_nat.simps [of n])
  next
    case False
    with 1 digit_no_slash [of "n mod 10"] show ?thesis
      by (simp add: str_nat.simps [of n])
  qed
qed

lemma iter_png_plain:
  "iter_png rd n = fst rd @ concat (map (\<lambda>p. p @ ''/'') (snd rd)) @ ''iter_'' @ str_nat n @ ''.png''"
  unfolding iter_png_def
  by (rule path_join_plain) (use str_nat_no_slash [of n] in auto)

lemma iter_details_plain:
  "iter_details rd n
   = fst rd @ concat (map (\<lambda>p. p @ ''/'') (snd rd)) @ ''iter_'' @ str_nat n @ ''_details.json''"
  unfolding iter_details_def
  by (rule path_join_plain) (use str_nat_no_slash [of n] in auto)

lemma details_not_png: "iter_details rd n \<noteq> iter_png rd m"
proof
  assume "iter_details rd n = iter_png rd m"
  then have "''iter_'' @ str_nat n @ ''_details.json'' = ''iter_'' @ str_nat m @ ''.png''"
    by (simp add: iter_details_plain iter_png_plain)
  then have "last (''iter_'' @ str_nat n @ ''_details.json'')
             = last (''iter_'' @ str_nat m @ ''.png'')"
    by (rule arg_cong)
  then show False by simp
qed

lemma final_not_png: "path_join rd ''final_output.png'' \<noteq> iter_png rd m"
proof -
  have "path_join rd ''final_output.png''
        = fst rd @ concat (map (\<lambda>p. p @ ''/'') (snd rd)) @ ''final_output.png''"
    by (rule path_join_plain) auto
  then show ?thesis by (simp add: iter_png_plain)
qed

lemma has_suggestions_len:
  "py_len x = Inr n \<Longrightarrow> has_suggestions x \<longleftrightarrow> 0 < n"
  by (simp add: has_suggestions_def)

lemma refine_loop_run:
  assumes "refine_loop E sc cap mode raw rd is st w = Inr (st', w')"
  shows "\<exists>new. iterations_run st' = iterations_run st @ new \<and>
           chained is (current_description st) new \<and>
           (new = [] \<longrightarrow> st' = st \<and> w' = w) \<and>
           (new \<noteq> [] \<longrightarrow>
              final_image_path st' = Some (it_image (last new)) \<and>
              current_description st' =
                (if revises (last new) then it_revised (last new)
                 else it_description (last new)) \<and>
              (\<exists>img. files w' (it_image (last new)) = Some (ImageFile img))) \<and>
           (\<forall>r\<in>set new. it_image r = iter_png rd (it_number r))"
  using assms
proof (induction "is" arbitrary: st w)
  case Nil
  then show ?case by simp
next
  case (Cons i rest)
  from Cons.prems obtain image_path description w1 where
    v: "visualize E (current_description st) mode raw (Some (iter_png rd (i + 1))) (i + 1) w
        = Inr ((image_path, description), w1)"
    by (auto split: sum.splits)
  from visualize_path [OF v] have ip: "image_path = iter_png rd (i + 1)" .
  from Cons.prems v obtain crit w2 where
    c: "critique E image_path description sc cap mode w1 = Inr (crit, w2)"
    by (auto split: sum.splits)
  from critique_Inr [OF c] obtain img n where
    f2: "files w2 = files w1" and
    im: "files w1 image_path = Some (ImageFile img)" and
    n: "py_len (critic_suggestions crit) = Inr n"
    by blast
  define r where "r = \<lparr>it_number = i + 1, it_input = current_description st,
                         it_image = image_path, it_description = description,
                         it_suggestions = critic_suggestions crit,
                         it_revised = revised_description crit\<rparr>"
  from Cons.prems v c obtain w3 where
    wr: "write_file E (iter_details rd (i + 1)) (JsonFile (iter_data r)) w2 = Inr w3"
    by (auto simp: r_def Let_def split: sum.splits)
  from wr have w3_def: "w3 = w2\<lparr>files := (files w2)(iter_details rd (i + 1) \<mapsto>
                                                JsonFile (iter_data r))\<rparr>"
    by (auto simp: write_file_def split: option.splits)
  define st1 where "st1 = \<lparr>current_description = description,
                           final_image_path = Some image_path,
                           iterations_run = iterations_run st @ [r]\<rparr>"
  have rv: "revises r \<longleftrightarrow> 0 < n \<and> truthy (revised_description crit)"
    using n by (simp add: revises_def r_def has_suggestions_len)
  have img3: "files w3 (it_image r) = Some (ImageFile img)"
    using im f2 details_not_png [of rd "i + 1" "i + 1"]
    by (simp add: w3_def r_def ip)
  have unfold: "refine_loop E sc cap mode raw rd (i # rest) st w =
      (if revises r
       then refine_loop E sc cap mode raw rd rest
              (st1\<lparr>current_description := revised_description crit\<rparr>) w3
       else Inr (st1, w3))"
    using v c n rv wr by (simp add: r_def st1_def Let_def)
  show ?case
  proof (cases "revises r")
    case False
    with Cons.prems unfold have "st' = st1" "w' = w3" by simp_all
    with False img3 show ?thesis
      by (intro exI [of _ "[r]"]) (simp add: st1_def r_def ip)
  next
    case True
    with Cons.prems unfold have
      rec: "refine_loop E sc cap mode raw rd rest
              (st1\<lparr>current_description := revised_description crit\<rparr>) w3 = Inr (st', w')"
      by simp
    from Cons.IH [OF rec] obtain new where new:
      "iterations_run st' = (iterations_run st @ [r]) @ new"
      "chained rest (revised_description crit) new"
      "new = [] \<longrightarrow> st' = st1\<lparr>current_description := revised_description crit\<rparr> \<and> w' = w3"
      "new \<noteq> [] \<longrightarrow>
          final_image_path st' = Some (it_image (last new)) \<and>
          current_description st' =
            (if revises (last new) then it_revised (last new)
             else it_description (last new)) \<and>
          (\<exists>img. files w' (it_image (last new)) = Some (ImageFile img))"
      "\<forall>r\<in>set new. it_image r = iter_png rd (it_number r)"
      by (auto simp: st1_def)
    have ch: "chained (i # rest) (current_description st) (r # new)"
      using True new(2) by (simp add: r_def)
    have last_ok: "final_image_path st' = Some (it_image (last (r # new))) \<and>
          current_description st' =
            (if revises (last (r # new)) then it_revised (last (r # new))
             else it_description (last (r # new))) \<and>
          (\<exists>img. files w' (it_image (last (r # new))) = Some (ImageFile img))"
    proof (cases "new = []")
      case True
      with new(3) \<open>revises r\<close> img3 show ?thesis
        by (simp add: st1_def r_def)
    next
      case False
      with new(4) show ?thesis by simp
    qed
    have paths: "\<forall>x\<in>set (r # new). it_image x = iter_png rd (it_number x)"
      using new(5) by (simp add: r_def ip)
    have app: "iterations_run st' = iterations_run st @ (r # new)"
      using new(1) by simp
    have ne: "r # new \<noteq> []" by simp
    from app ch ne last_ok paths show ?thesis by blast
  qed
qed

section \<open>Properties of the pipeline\<close>

lemma phase2_run:
  assumes "phase2 E sc cap mode raw rd iterations description w = Inr (st, w')"
  shows "chained [0..<nat iterations] (JStr description) (iterations_run st)"
    and "iterations_run st = [] \<Longrightarrow>
           st = \<lparr>current_description = JStr description, final_image_path = None,
                  iterations_run = []\<rparr> \<and> w' = w"
    and "iterations_run st \<noteq> [] \<Longrightarrow>
           final_image_path st = Some (it_image (last (iterations_run st))) \<and>
           current_description st =
             (if revises (last (iterations_run st)) then it_revised (last (iterations_run st))
              else it_description (last (iterations_run st))) \<and>
           (\<exists>img. files w' (it_image (last (iterations_run st))) = Some (ImageFile img))"
    and "\<forall>r\<in>set (iterations_run st). it_image r = iter_png rd (it_number r)"
  using refine_loop_run [OF assms [unfolded phase2_def]] by auto

lemma phase2_no_iterations:
  "iterations \<le> 0 \<Longrightarrow>
   phase2 E sc cap mode raw rd iterations description w
   = Inr (\<lparr>current_description = JStr description, final_image_path = None,
            iterations_run = []\<rparr>, w)"
  by (simp add: phase2_def)

text \<open>A concrete run: three iterations allowed, the critic of \<open>critic_env\<close>.\<close>

lemmas run_defs = critic_env_def phase2_def visualize_def generate_diagram_def
      generate_image_def critique_def call_vlm_def parse_critic_def demo_env_def
      demo_world_def dict_get_def Let_def upt_rec write_file_def make_dirs_def

lemma critic_run:
  "\<exists>st w'. phase2 (critic_env 0) ''ctx'' ''cap'' ''diagram'' JNull (parse_path ''o'') 3 ''d0'' demo_world
             = Inr (st, w') \<and>
           map it_suggestions (iterations_run st) = [JArr [JStr ''x''], JArr [JStr ''y'']] \<and>
           map it_revised (iterations_run st) = [JStr ''d1'', JNull] \<and>
           map it_input (iterations_run st) = [JStr ''d0'', JStr ''d1''] \<and>
           current_description st = JStr ''d1''"
  by (simp add: run_defs)

text \<open>
  C1, as amended. A run of the loop that completes executes at most \<open>iterations\<close>
  iterations, numbered from 1. It stops at an iteration before the last allowed one
  exactly when that iteration does not call for another: its suggestions are empty or
  its revised description is not truthy (null or empty, say). An iteration followed by another one
  had suggestions and a truthy revised description, and the next iteration starts
  from that revised description. The first iteration starts from the styled
  description.
\<close>

theorem refinement_loop_bounded:
  assumes "phase2 E source_context caption mode raw_data run_dir iterations description w
           = Inr (st, w')"
  shows "length (iterations_run st) \<le> nat iterations \<and>
         (\<forall>j<length (iterations_run st).
            it_number (iterations_run st ! j) = j + 1 \<and>
            (j + 1 < nat iterations \<longrightarrow>
               (j + 1 = length (iterations_run st) \<longleftrightarrow> \<not> revises (iterations_run st ! j)))) \<and>
         (\<forall>j. j + 1 < length (iterations_run st) \<longrightarrow>
            revises (iterations_run st ! j) \<and>
            it_input (iterations_run st ! (j + 1)) = it_revised (iterations_run st ! j)) \<and>
         (0 < iterations \<longrightarrow>
            iterations_run st \<noteq> [] \<and> it_input (iterations_run st ! 0) = JStr description)"
proof -
  let ?rs = "iterations_run st"
  note ch = phase2_run(1) [OF assms]
  from chained_length [OF ch] have len: "length ?rs \<le> nat iterations" by simp
  have num: "it_number (?rs ! j) = j + 1" if "j < length ?rs" for j
    using chained_number [OF ch that] that len by simp
  have stop: "j + 1 = length ?rs \<longleftrightarrow> \<not> revises (?rs ! j)"
    if "j < length ?rs" "j + 1 < nat iterations" for j
  proof
    assume "j + 1 = length ?rs"
    then show "\<not> revises (?rs ! j)" using chained_last [OF ch] that by simp
  next
    assume "\<not> revises (?rs ! j)"
    then have "\<not> j + 1 < length ?rs" using chained_next [OF ch] by blast
    with that show "j + 1 = length ?rs" by simp
  qed
  have nxt: "revises (?rs ! j) \<and> it_input (?rs ! (j + 1)) = it_revised (?rs ! j)"
    if "j + 1 < length ?rs" for j
    using chained_next [OF ch that] .
  have first: "?rs \<noteq> [] \<and> it_input (?rs ! 0) = JStr description" if "0 < iterations"
    using chained_first [OF ch] that by simp
  from len num stop nxt first show ?thesis by blast
qed

theorem refinement_loop_bounded_witness:
  "\<exists>st w'. phase2 (critic_env 0) ''ctx'' ''cap'' ''diagram'' JNull (parse_path ''o'') 3 ''d0'' demo_world
             = Inr (st, w') \<and>
     map it_suggestions (iterations_run st) = [JArr [JStr ''x''], JArr [JStr ''y'']] \<and>
     map it_revised (iterations_run st) = [JStr ''d1'', JNull] \<and>
     length (iterations_run st) \<le> nat 3 \<and>
     (\<forall>j<length (iterations_run st).
        it_number (iterations_run st ! j) = j + 1 \<and>
        (j + 1 < nat 3 \<longrightarrow>
           (j + 1 = length (iterations_run st) \<longleftrightarrow> \<not> revises (iterations_run st ! j)))) \<and>
     (\<forall>j. j + 1 < length (iterations_run st) \<longrightarrow>
        revises (iterations_run st ! j) \<and>
        it_input (iterations_run st ! (j + 1)) = it_revised (iterations_run st ! j)) \<and>
     ((0::int) < 3 \<longrightarrow>
        iterations_run st \<noteq> [] \<and> it_input (iterations_run st ! 0) = JStr ''d0'')"
proof -
  from critic_run obtain st w' where
    r: "phase2 (critic_env 0) ''ctx'' ''cap'' ''diagram'' JNull (parse_path ''o'') 3 ''d0'' demo_world
        = Inr (st, w')" and
    s: "map it_suggestions (iterations_run st) = [JArr [JStr ''x''], JArr [JStr ''y'']]"
       "map it_revised (iterations_run st) = [JStr ''d1'', JNull]"
    by (elim exE conjE)
  note T = refinement_loop_bounded [OF r]
  note B = conjI [OF r conjI [OF s(1) conjI [OF s(2) T]]]
  show ?thesis
    by (rule exI [of _ st], rule exI [of _ w'], rule B)
qed

text \<open>
  C1 as stated fails: with three iterations allowed, the run stops after the second
  one although the critic made a suggestion there (it gave no revised description).
\<close>

theorem refinement_loop_counterexample:
  "map_option (map it_suggestions \<circ> iterations_run)
     (returned (phase2 (critic_env 0) ''ctx'' ''cap'' ''diagram'' JNull (parse_path ''o'') 3 ''d0''
        demo_world))
   = Some [JArr [JStr ''x''], JArr [JStr ''y'']] \<and>
   has_suggestions (JArr [JStr ''y''])"
  by (simp add: run_defs returned_def has_suggestions_def)

text \<open>
  C6. In every iteration of a completed run: without suggestions the iteration is the
  last one and the current description stays the one of that iteration; an
  iteration followed by another had suggestions, and the next starts from its
  revised description; and if the last iteration changed the current description, it
  had suggestions and the new description is its revised one.
\<close>

theorem revision_needs_suggestions:
  assumes "phase2 E source_context caption mode raw_data run_dir iterations description w
           = Inr (st, w')"
  shows "\<forall>j<length (iterations_run st).
           (\<not> has_suggestions (it_suggestions (iterations_run st ! j)) \<longrightarrow>
              j + 1 = length (iterations_run st) \<and>
              current_description st = it_description (iterations_run st ! j)) \<and>
           (j + 1 < length (iterations_run st) \<longrightarrow>
              has_suggestions (it_suggestions (iterations_run st ! j)) \<and>
              it_input (iterations_run st ! (j + 1)) = it_revised (iterations_run st ! j)) \<and>
           (j + 1 = length (iterations_run st) \<and>
            current_description st \<noteq> it_description (iterations_run st ! j) \<longrightarrow>
              has_suggestions (it_suggestions (iterations_run st ! j)) \<and>
              current_description st = it_revised (iterations_run st ! j))"
proof (intro allI impI)
  fix j
  let ?rs = "iterations_run st"
  assume j: "j < length ?rs"
  note ch = phase2_run(1) [OF assms]
  from j have ne: "?rs \<noteq> []" by auto
  note fin = phase2_run(3) [OF assms ne]
  have lastj: "last ?rs = ?rs ! j" if "j + 1 = length ?rs"
  proof -
    from that have "length ?rs - 1 = j" by simp
    with last_conv_nth [OF ne] show ?thesis by simp
  qed
  have a: "j + 1 = length ?rs \<and> current_description st = it_description (?rs ! j)"
    if ns: "\<not> has_suggestions (it_suggestions (?rs ! j))"
  proof -
    from ns have nr: "\<not> revises (?rs ! j)" by (simp add: revises_def)
    then have "\<not> j + 1 < length ?rs" using chained_next [OF ch] by blast
    with j have l: "j + 1 = length ?rs" by simp
    with fin nr lastj show ?thesis by simp
  qed
  have b: "has_suggestions (it_suggestions (?rs ! j)) \<and>
           it_input (?rs ! (j + 1)) = it_revised (?rs ! j)"
    if "j + 1 < length ?rs"
    using chained_next [OF ch that] by (simp add: revises_def)
  have c: "has_suggestions (it_suggestions (?rs ! j)) \<and>
           current_description st = it_revised (?rs ! j)"
    if "j + 1 = length ?rs \<and> current_description st \<noteq> it_description (?rs ! j)"
    using that fin lastj by (auto simp: revises_def split: if_splits)
  from a b c show "(\<not> has_suggestions (it_suggestions (?rs ! j)) \<longrightarrow>
              j + 1 = length ?rs \<and> current_description st = it_description (?rs ! j)) \<and>
           (j + 1 < length ?rs \<longrightarrow>
              has_suggestions (it_suggestions (?rs ! j)) \<and>
              it_input (?rs ! (j + 1)) = it_revised (?rs ! j)) \<and>
           (j + 1 = length ?rs \<and> current_description st \<noteq> it_description (?rs ! j) \<longrightarrow>
              has_suggestions (it_suggestions (?rs ! j)) \<and>
              current_description st = it_revised (?rs ! j))"
    by blast
qed

theorem revision_needs_suggestions_witness:
  "\<exists>st w'. phase2 (critic_env 0) ''ctx'' ''cap'' ''diagram'' JNull (parse_path ''o'') 3 ''d0'' demo_world
             = Inr (st, w') \<and>
     map it_suggestions (iterations_run st) = [JArr [JStr ''x''], JArr [JStr ''y'']] \<and>
     map it_input (iterations_run st) = [JStr ''d0'', JStr ''d1''] \<and>
     current_description st = JStr ''d1'' \<and>
     (\<forall>j<length (iterations_run st).
           (\<not> has_suggestions (it_suggestions (iterations_run st ! j)) \<longrightarrow>
              j + 1 = length (iterations_run st) \<and>
              current_description st = it_description (iterations_run st ! j)) \<and>
           (j + 1 < length (iterations_run st) \<longrightarrow>
              has_suggestions (it_suggestions (iterations_run st ! j)) \<and>
              it_input (iterations_run st ! (j + 1)) = it_revised (iterations_run st ! j)) \<and>
           (j + 1 = length (iterations_run st) \<and>
            current_description st \<noteq> it_description (iterations_run st ! j) \<longrightarrow>
              has_suggestions (it_suggestions (iterations_run st ! j)) \<and>
              current_description st = it_revised (iterations_run st ! j)))"
proof -
  from critic_run obtain st w' where
    r: "phase2 (critic_env 0) ''ctx'' ''cap'' ''diagram'' JNull (parse_path ''o'') 3 ''d0'' demo_world
        = Inr (st, w')" and
    s: "map it_suggestions (iterations_run st) = [JArr [JStr ''x''], JArr [JStr ''y'']]"
       "map it_input (iterations_run st) = [JStr ''d0'', JStr ''d1'']"
       "current_description st = JStr ''d1''"
    by (elim exE conjE)
  note T = revision_needs_suggestions [OF r]
  note B = conjI [OF r conjI [OF s(1) conjI [OF s(2) conjI [OF s(3) T]]]]
  show ?thesis
    by (rule exI [of _ st], rule exI [of _ w'], rule B)
qed

text \<open>
  C10. With \<open>iterations \<le> 0\<close> the pipeline never returns: once the run directory is
  made and Phase 1 has succeeded, the loop runs no iteration, \<open>final_image_path\<close> is
  still \<open>None\<close> and the copy raises TypeError. With \<open>iterations \<ge> 1\<close>, whenever the
  pipeline returns, at least one iteration ran, and the file at the final path is the
  image file that the last executed iteration left at its own path.
\<close>

theorem generate_final_artifact:
  "(iterations \<le> 0 \<longrightarrow>
      returned (generate E source_context caption reference_dir mode iterations output_dir
                  raw_data w) = None \<and>
      (\<forall>d w1.
         mkdir_error E (path_str (run_dir_of E output_dir)) (files w) = None \<and>
         phase1 E source_context caption reference_dir mode (run_dir_of E output_dir) w
           = Inr (d, w1) \<longrightarrow>
         phase2 E source_context caption mode raw_data (run_dir_of E output_dir)
           iterations d w1
         = Inr (\<lparr>current_description = JStr d, final_image_path = None,
                  iterations_run = []\<rparr>, w1) \<and>
         generate E source_context caption reference_dir mode iterations output_dir
           raw_data w = Inl TypeError)) \<and>
   (1 \<le> iterations \<longrightarrow>
      (\<forall>out w'.
         generate E source_context caption reference_dir mode iterations output_dir
           raw_data w = Inr (out, w') \<longrightarrow>
         (\<exists>d w1 st w2.
            phase1 E source_context caption reference_dir mode (run_dir_of E output_dir) w
              = Inr (d, w1) \<and>
            phase2 E source_context caption mode raw_data (run_dir_of E output_dir)
              iterations d w1 = Inr (st, w2) \<and>
            iterations_run st \<noteq> [] \<and>
            final_image_path st = Some (it_image (last (iterations_run st))) \<and>
            it_image (last (iterations_run st))
              = iter_png (run_dir_of E output_dir) (length (iterations_run st)) \<and>
            out = path_join (run_dir_of E output_dir) ''final_output.png'' \<and>
            files w' out = files w2 (it_image (last (iterations_run st))) \<and>
            (\<exists>img. files w' out = Some (ImageFile img)))))"
proof -
  let ?rd = "run_dir_of E output_dir"
  let ?gen = "generate E source_context caption reference_dir mode iterations output_dir
                raw_data w"
  have none: "returned ?gen = None \<and>
      (\<forall>d w1.
         mkdir_error E (path_str ?rd) (files w) = None \<and>
         phase1 E source_context caption reference_dir mode ?rd w = Inr (d, w1) \<longrightarrow>
         phase2 E source_context caption mode raw_data ?rd iterations d w1
         = Inr (\<lparr>current_description = JStr d, final_image_path = None,
                  iterations_run = []\<rparr>, w1) \<and>
         ?gen = Inl TypeError)"
    if "iterations \<le> 0"
    using phase2_no_iterations [OF that]
    by (auto simp: generate_def returned_def copy2_def Let_def make_dirs_def
        split: sum.splits option.splits)
  have some: "\<exists>d w1 st w2.
            phase1 E source_context caption reference_dir mode ?rd w = Inr (d, w1) \<and>
            phase2 E source_context caption mode raw_data ?rd iterations d w1 = Inr (st, w2) \<and>
            iterations_run st \<noteq> [] \<and>
            final_image_path st = Some (it_image (last (iterations_run st))) \<and>
            it_image (last (iterations_run st)) = iter_png ?rd (length (iterations_run st)) \<and>
            out = path_join ?rd ''final_output.png'' \<and>
            files w' out = files w2 (it_image (last (iterations_run st))) \<and>
            (\<exists>img. files w' out = Some (ImageFile img))"
    if pos: "1 \<le> iterations" and g: "?gen = Inr (out, w')" for out w'
  proof -
    from g have md: "make_dirs E (path_str ?rd) w = Inr w"
      by (auto simp: generate_def Let_def make_dirs_def split: sum.splits option.splits)
    from g md obtain d w1 where p1:
      "phase1 E source_context caption reference_dir mode ?rd w = Inr (d, w1)"
      by (auto simp: generate_def Let_def split: sum.splits)
    from g md p1 obtain st w2 where p2:
      "phase2 E source_context caption mode raw_data ?rd iterations d w1 = Inr (st, w2)"
      by (auto simp: generate_def Let_def split: sum.splits)
    from g md p1 p2 have cp:
      "copy2 E (final_image_path st) (path_join ?rd ''final_output.png'') w2 = Inr w'"
      and out: "out = path_join ?rd ''final_output.png''"
      by (auto simp: generate_def Let_def split: sum.splits)
    let ?rs = "iterations_run st"
    note ch = phase2_run(1) [OF p2]
    from chained_first [OF ch] pos have ne: "?rs \<noteq> []" by simp
    from phase2_run(3) [OF p2 ne] obtain img where
      fin: "final_image_path st = Some (it_image (last ?rs))" and
      img: "files w2 (it_image (last ?rs)) = Some (ImageFile img)"
      by blast
    from ne have lst: "last ?rs = ?rs ! (length ?rs - 1)" by (rule last_conv_nth)
    from ne have lt: "length ?rs - 1 < length ?rs" by simp
    from chained_length [OF ch] have len: "length ?rs \<le> nat iterations" by simp
    from chained_number [OF ch lt] lt len ne have "it_number (last ?rs) = length ?rs"
      by (simp add: lst)
    moreover from phase2_run(4) [OF p2] ne have
      "it_image (last ?rs) = iter_png ?rd (it_number (last ?rs))"
      by simp
    ultimately have path: "it_image (last ?rs) = iter_png ?rd (length ?rs)" by simp
    from cp fin img have w': "files w' (path_join ?rd ''final_output.png'') = Some (ImageFile img)"
      by (auto simp: copy2_def write_file_Inr)
    from p1 p2 ne fin path out w' img show ?thesis by auto
  qed
  from none some show ?thesis by blast
qed

lemmas gen_defs = generate_def phase1_def retrieve_def plan_def style_def
  example_images_def copy2_def planning_data_def NUM_RETRIEVAL_EXAMPLES_def
  iter_png_def iter_details_def path_join_def run_dir_of_def path_str_def path_div_def
  parse_path_def path_parent_def parent_dir_def str_nat.simps digit_def

lemma critic_phase1:
  "\<exists>d w1. phase1 (critic_env 2) ''ctx'' ''cap'' None ''diagram''
             (run_dir_of (critic_env 2) ''o/'') demo_world = Inr (d, w1)"
  by (simp add: gen_defs run_defs)

lemma critic_generate:
  "\<exists>out w'. generate (critic_env 2) ''ctx'' ''cap'' None ''diagram'' 3 ''o/'' JNull demo_world
              = Inr (out, w') \<and>
            out = ''o/run_1/final_output.png'' \<and>
            files w' out = Some (ImageFile (Picture 1)) \<and>
            files w' ''o/run_1/iter_2.png'' = Some (ImageFile (Picture 1)) \<and>
            files w' ''o/run_1/iter_3.png'' = None"
  by (simp add: gen_defs run_defs)

theorem generate_final_artifact_witness:
  "returned (generate (critic_env 2) ''ctx'' ''cap'' None ''diagram'' 0 ''o/'' JNull demo_world)
   = None \<and>
   generate (critic_env 2) ''ctx'' ''cap'' None ''diagram'' 0 ''o/'' JNull demo_world
   = Inl TypeError \<and>
   (\<exists>out w'.
      (generate (critic_env 2) ''ctx'' ''cap'' None ''diagram'' 3 ''o/'' JNull demo_world
         = Inr (out, w') \<and>
       out = ''o/run_1/final_output.png'' \<and>
       files w' out = Some (ImageFile (Picture 1)) \<and>
       files w' ''o/run_1/iter_2.png'' = Some (ImageFile (Picture 1)) \<and>
       files w' ''o/run_1/iter_3.png'' = None) \<and>
      (\<exists>d w1 st w2.
          phase1 (critic_env 2) ''ctx'' ''cap'' None ''diagram''
            (run_dir_of (critic_env 2) ''o/'') demo_world = Inr (d, w1) \<and>
          phase2 (critic_env 2) ''ctx'' ''cap'' ''diagram'' JNull
            (run_dir_of (critic_env 2) ''o/'') 3 d w1 = Inr (st, w2) \<and>
          iterations_run st \<noteq> [] \<and>
          final_image_path st = Some (it_image (last (iterations_run st))) \<and>
          it_image (last (iterations_run st))
            = iter_png (run_dir_of (critic_env 2) ''o/'') (length (iterations_run st)) \<and>
          out = path_join (run_dir_of (critic_env 2) ''o/'') ''final_output.png'' \<and>
          files w' out = files w2 (it_image (last (iterations_run st))) \<and>
          (\<exists>img. files w' out = Some (ImageFile img))))"
proof -
  note T = generate_final_artifact
      [where E = "critic_env 2" and source_context = "''ctx''" and caption = "''cap''"
         and reference_dir = None and mode = "''diagram''" and output_dir = "''o/''"
         and raw_data = JNull and w = demo_world]
  have z: "(0::int) \<le> 0" and p: "(1::int) \<le> 3" by simp_all
  note T0 = T [where iterations = 0, THEN conjunct1, THEN mp, OF z]
  note T3 = T [where iterations = 3, THEN conjunct2, THEN mp, OF p, rule_format]
  have md: "mkdir_error (critic_env 2) (path_str (run_dir_of (critic_env 2) ''o/''))
              (files demo_world) = None"
    by (simp add: critic_env_def demo_env_def)
  from critic_phase1 obtain d w1 where
    "phase1 (critic_env 2) ''ctx'' ''cap'' None ''diagram''
       (run_dir_of (critic_env 2) ''o/'') demo_world = Inr (d, w1)"
    by (elim exE)
  from T0 [THEN conjunct2, rule_format, OF conjI [OF md this]] have
    e: "generate (critic_env 2) ''ctx'' ''cap'' None ''diagram'' 0 ''o/'' JNull demo_world
        = Inl TypeError"
    by (rule conjunct2)
  from critic_generate obtain out w' where g:
    "generate (critic_env 2) ''ctx'' ''cap'' None ''diagram'' 3 ''o/'' JNull demo_world
       = Inr (out, w') \<and>
     out = ''o/run_1/final_output.png'' \<and>
     files w' out = Some (ImageFile (Picture 1)) \<and>
     files w' ''o/run_1/iter_2.png'' = Some (ImageFile (Picture 1)) \<and>
     files w' ''o/run_1/iter_3.png'' = None"
    by (elim exE)
  note B = conjI [OF g T3 [OF g [THEN conjunct1]]]
  have "\<exists>out w'.
      (generate (critic_env 2) ''ctx'' ''cap'' None ''diagram'' 3 ''o/'' JNull demo_world
         = Inr (out, w') \<and>
       out = ''o/run_1/final_output.png'' \<and>
       files w' out = Some (ImageFile (Picture 1)) \<and>
       files w' ''o/run_1/iter_2.png'' = Some (ImageFile (Picture 1)) \<and>
       files w' ''o/run_1/iter_3.png'' = None) \<and>
      (\<exists>d w1 st w2.
          phase1 (critic_env 2) ''ctx'' ''cap'' None ''diagram''
            (run_dir_of (critic_env 2) ''o/'') demo_world = Inr (d, w1) \<and>
          phase2 (critic_env 2) ''ctx'' ''cap'' ''diagram'' JNull
            (run_dir_of (critic_env 2) ''o/'') 3 d w1 = Inr (st, w2) \<and>
          iterations_run st \<noteq> [] \<and>
          final_image_path st = Some (it_image (last (iterations_run st))) \<and>
          it_image (last (iterations_run st))
            = iter_png (run_dir_of (critic_env 2) ''o/'') (length (iterations_run st)) \<and>
          out = path_join (run_dir_of (critic_env 2) ''o/'') ''final_output.png'' \<and>
          files w' out = files w2 (it_image (last (iterations_run st))) \<and>
          (\<exists>img. files w' out = Some (ImageFile img)))"
    by (rule exI [of _ out], rule exI [of _ w'], rule B)
  from conjI [OF T0 [THEN conjunct1] conjI [OF e this]] show ?thesis .
qed

end
